theory Spec2Isabelle
  imports Complex_Main
begin

section \<open>Personal Delta Bot: the decision engine of server.js\<close>

text \<open>
  A shallow embedding of the classes \<^verbatim>\<open>DeltaAPI\<close> and \<^verbatim>\<open>TradingBot\<close> of
  \<^verbatim>\<open>src/server.js\<close>.

  Conventions of the embedding:
  \<^item> A JavaScript number is a \<open>real\<close>: rounding, \<^verbatim>\<open>NaN\<close> and the infinities are outside
    the model. The one division of the program is also given with a checked division
    (\<open>js_divide\<close>), so that a division by zero is visible as \<open>None\<close>.
  \<^item> A property of a JSON object that may be absent (or \<^verbatim>\<open>null\<close>) is an \<open>option\<close>.
  \<^item> \<^verbatim>\<open>this\<close> is the record \<open>bot\<close>, passed explicitly and returned updated.
  \<^item> Everything the program does to the outside world (console output, socket.io
    events, calls on the API client, HTTP requests, timers) is appended to the field
    \<open>trace\<close>, oldest first.
  \<^item> The answers of the exchange are parameters (\<open>outcome\<close>); \<^verbatim>\<open>new Date()\<close> is the
    parameter \<open>now\<close>, read once per operation.
  \<^item> A log message is the template literal that builds it, with the numbers it
    formats (\<^verbatim>\<open>toFixed\<close> is not modelled).
\<close>

subsection \<open>Data\<close>

text \<open>A position as returned by \<^verbatim>\<open>GET /v2/positions\<close>; \<open>product_type\<close> is
  \<^verbatim>\<open>position.product?.product_type\<close>.\<close>

record position =
  size_p :: "real option"
  delta :: "real option"
  product_type :: "string option"
  mark_price :: "real option"

text \<open>The object returned by \<^verbatim>\<open>calculatePortfolioDelta\<close>.\<close>

record delta_info =
  deltaPercentage :: real
  totalDelta :: real
  ethValue :: real

text \<open>\<^verbatim>\<open>x || d\<close> on a number that may be absent: \<^verbatim>\<open>undefined\<close>, \<^verbatim>\<open>null\<close> and \<^verbatim>\<open>0\<close> are falsy.\<close>

definition js_or :: "real option \<Rightarrow> real \<Rightarrow> real" where
  "js_or x d = (case x of None \<Rightarrow> d | Some v \<Rightarrow> if v \<noteq> 0 then v else d)"

text \<open>\<^verbatim>\<open>s || ''\<close> on a string that may be absent: the empty string is falsy.\<close>

definition js_or_str :: "string option \<Rightarrow> string \<Rightarrow> string" where
  "js_or_str x d = (case x of None \<Rightarrow> d | Some v \<Rightarrow> if v \<noteq> [] then v else d)"

text \<open>A division that shows a zero divisor: \<open>None\<close> stands for the non-finite number
  JavaScript would produce.\<close>

definition js_divide :: "real \<Rightarrow> real \<Rightarrow> real option" where
  "js_divide a b = (if b = 0 then None else Some (a / b))"

subsection \<open>calculatePortfolioDelta (server.js 181-205)\<close>

text \<open>The body of the \<^verbatim>\<open>forEach\<close>, on the two accumulators \<^verbatim>\<open>totalDelta\<close> and
  \<^verbatim>\<open>ethValue\<close>.\<close>

definition positionDelta :: "position \<Rightarrow> real" where
  "positionDelta position =
     (let size = js_or (size_p position) 0;
          delta' = js_or (delta position) 0;
          productType = js_or_str (product_type position) []
      in if productType = ''future'' then size
         else if productType \<in> set [''call_options'', ''put_options''] then size * delta'
         else 0)"

fun forEach_body :: "real \<times> real \<Rightarrow> position \<Rightarrow> real \<times> real" where
  "forEach_body (totalDelta', ethValue') position =
     (let size = js_or (size_p position) 0;
          markPrice = js_or (mark_price position) 0
      in (totalDelta' + positionDelta position, ethValue' + \<bar>size\<bar> * markPrice))"

definition calculatePortfolioDelta :: "position list \<Rightarrow> delta_info" where
  "calculatePortfolioDelta positions =
     (case foldl forEach_body (0, 0) positions of
        (totalDelta', ethValue') \<Rightarrow>
          \<lparr>deltaPercentage = (if ethValue' > 0 then totalDelta' / ethValue' else 0),
           totalDelta = totalDelta',
           ethValue = ethValue'\<rparr>)"

text \<open>The same function with the checked division: \<open>None\<close> if and only if the
  division is evaluated at a zero divisor.\<close>

definition calculatePortfolioDelta_checked :: "position list \<Rightarrow> delta_info option" where
  "calculatePortfolioDelta_checked positions =
     (case foldl forEach_body (0, 0) positions of
        (totalDelta', ethValue') \<Rightarrow>
          (case (if ethValue' > 0 then js_divide totalDelta' ethValue' else Some 0) of
             None \<Rightarrow> None
           | Some deltaPercentage' \<Rightarrow>
               Some \<lparr>deltaPercentage = deltaPercentage',
                     totalDelta = totalDelta',
                     ethValue = ethValue'\<rparr>))"

text \<open>The two positions of the worked example: a future of size 2 marked at 100 and a
  call option of size 1 and delta 0.5 marked at 200, with the product types as the
  exchange names them.\<close>

definition example_future :: position where
  "example_future =
     \<lparr>size_p = Some 2, delta = None, product_type = Some ''future'', mark_price = Some 100\<rparr>"

definition example_call :: position where
  "example_call =
     \<lparr>size_p = Some 1, delta = Some 0.5, product_type = Some ''call_options'',
      mark_price = Some 200\<rparr>"

subsection \<open>The state of the bot and what it does to the outside\<close>

datatype status = Stopped | Running

datatype level = INFO | WARNING | ERROR

text \<open>One constructor for each message the program logs, in the order of the source:
  \<^verbatim>\<open>start\<close>, \<^verbatim>\<open>stop\<close>, \<^verbatim>\<open>checkAndHedge\<close>, \<^verbatim>\<open>executeHedge\<close>, \<^verbatim>\<open>updateSettings\<close>.\<close>

datatype message =
    BotStarted
  | BotStopped
  | CheckingPositions
  | NoOpenPositions
  | DeltaReport real real
  | DeltaWithinRange real
  | CycleError string
  | HedgeTooSmall real
  | ThresholdBreached real
  | ExecutingHedge string real
  | HedgeSuccessful
  | HedgeFailed
  | HedgeError string
  | SettingsUpdated

record log_entry =
  level :: level
  message :: message
  l_createdAt :: nat

record history_entry =
  h_deltaPercentage :: real
  h_totalDelta :: real
  h_ethValue :: real
  positionsCount :: nat
  h_createdAt :: nat

text \<open>What \<^verbatim>\<open>placeFutureOrder\<close> returns: \<^verbatim>\<open>{success: true, data}\<close> or
  \<^verbatim>\<open>{success: false, error}\<close>.\<close>

datatype order_result = OrderSuccess string | OrderFailure string

fun success :: "order_result \<Rightarrow> bool" where
  "success (OrderSuccess d) = True"
| "success (OrderFailure e) = False"

record trade =
  t_side :: string
  hedgeSize :: real
  t_currentDelta :: real
  orderResponse :: order_result
  t_createdAt :: nat

record settings =
  deltaThreshold :: real
  checkInterval :: real
  minHedgeSize :: real
  ethFutureProductId :: int

text \<open>The body of \<^verbatim>\<open>POST /api/settings\<close>, as far as \<^verbatim>\<open>updateSettings\<close> reads it.\<close>

record new_settings =
  n_deltaThreshold :: "real option"
  n_checkInterval :: "real option"
  n_minHedgeSize :: "real option"

text \<open>The JSON body of an order (\<^verbatim>\<open>data\<close> in \<^verbatim>\<open>placeFutureOrder\<close>).\<close>

record order_body =
  product_id :: int
  size_o :: real
  side :: string
  order_type :: string
  time_in_force :: string

datatype event =
    DeltaUpdate real real "nat option"
  | TradeExecuted string real real nat
  | LogEvent level message nat

datatype api_call = GetPositions | PlaceFutureOrder int real string

datatype effect =
    ConsoleLog level message
  | ConsoleError string string
  | Emit event
  | ApiCall api_call
  | HttpGet string
  | HttpPost string order_body
  | SetInterval real
  | ClearInterval

record bot =
  status :: status
  currentDelta :: real
  bot_ethValue :: real
  totalTrades :: nat
  lastCheck :: "nat option"
  settings :: settings
  deltaHistory :: "history_entry list"
  trades :: "trade list"
  logs :: "log_entry list"
  interval :: "real option"
  trace :: "effect list"

text \<open>The constructor of \<^verbatim>\<open>TradingBot\<close>; the settings come from the environment.\<close>

definition constructor :: "settings \<Rightarrow> bot" where
  "constructor env =
     \<lparr>status = Stopped, currentDelta = 0, bot_ethValue = 0, totalTrades = 0,
      lastCheck = None, settings = env, deltaHistory = [], trades = [], logs = [],
      interval = None, trace = []\<rparr>"

text \<open>What an operation added to the trace.\<close>

definition effects_since :: "bot \<Rightarrow> bot \<Rightarrow> effect list" where
  "effects_since s s' = drop (length (trace s)) (trace s')"

fun is_order_call :: "effect \<Rightarrow> bool" where
  "is_order_call (ApiCall (PlaceFutureOrder p z d)) = True"
| "is_order_call e = False"

fun is_post :: "effect \<Rightarrow> bool" where
  "is_post (HttpPost u b) = True"
| "is_post e = False"

fun is_deltaUpdate :: "effect \<Rightarrow> bool" where
  "is_deltaUpdate (Emit (DeltaUpdate d v c)) = True"
| "is_deltaUpdate e = False"

fun is_tradeExecuted :: "effect \<Rightarrow> bool" where
  "is_tradeExecuted (Emit (TradeExecuted d z b n)) = True"
| "is_tradeExecuted e = False"

fun is_console_error :: "effect \<Rightarrow> bool" where
  "is_console_error (ConsoleError a b) = True"
| "is_console_error e = False"

fun is_timer :: "effect \<Rightarrow> bool" where
  "is_timer (SetInterval p) = True"
| "is_timer ClearInterval = True"
| "is_timer e = False"

subsection \<open>The three bounded buffers\<close>

text \<open>\<^verbatim>\<open>deltaHistory.push(e); if (deltaHistory.length > 100) deltaHistory.shift()\<close>
  (server.js 153-160).\<close>

definition deltaHistory_push :: "'a \<Rightarrow> 'a list \<Rightarrow> 'a list" where
  "deltaHistory_push e h = (let h' = h @ [e] in if length h' > 100 then tl h' else h')"

text \<open>\<^verbatim>\<open>trades.unshift(t); if (trades.length > 50) trades.pop()\<close> (server.js 232-239).\<close>

definition trades_unshift :: "'a \<Rightarrow> 'a list \<Rightarrow> 'a list" where
  "trades_unshift t ts = (let ts' = t # ts in if length ts' > 50 then butlast ts' else ts')"

text \<open>\<^verbatim>\<open>logs.unshift(logEntry); if (logs.length > 200) logs.pop()\<close> (server.js 266-267).\<close>

definition logs_unshift :: "'a \<Rightarrow> 'a list \<Rightarrow> 'a list" where
  "logs_unshift l ls = (let ls' = l # ls in if length ls' > 200 then butlast ls' else ls')"

text \<open>A sequence of appends, the first element of the list first.\<close>

definition deltaHistory_appends :: "'a list \<Rightarrow> 'a list \<Rightarrow> 'a list" where
  "deltaHistory_appends h es = foldl (\<lambda>b e. deltaHistory_push e b) h es"

definition trades_appends :: "'a list \<Rightarrow> 'a list \<Rightarrow> 'a list" where
  "trades_appends ts xs = foldl (\<lambda>b t. trades_unshift t b) ts xs"

text \<open>\<^verbatim>\<open>Array.prototype.slice(begin, end)\<close> on integers: a negative index counts from
  the end, and both are clamped to the array.\<close>

definition slice :: "int \<Rightarrow> int \<Rightarrow> 'a list \<Rightarrow> 'a list" where
  "slice b e xs =
     (let n = int (length xs);
          k = (if b < 0 then max (n + b) 0 else min b n);
          final = (if e < 0 then max (n + e) 0 else min e n)
      in take (nat (final - k)) (drop (nat k) xs))"

text \<open>The accessors; \<open>None\<close> is the parameter left out, which takes its default.\<close>

definition getRecentTrades :: "int option \<Rightarrow> bot \<Rightarrow> trade list" where
  "getRecentTrades limit s =
     slice 0 (case limit of None \<Rightarrow> 50 | Some l \<Rightarrow> l) (trades s)"

definition getDeltaHistory :: "int option \<Rightarrow> bot \<Rightarrow> history_entry list" where
  "getDeltaHistory limit s =
     slice (- (case limit of None \<Rightarrow> 100 | Some l \<Rightarrow> l)) (int (length (deltaHistory s)))
       (deltaHistory s)"

definition getRecentLogs :: "int option \<Rightarrow> bot \<Rightarrow> log_entry list" where
  "getRecentLogs limit s =
     slice 0 (case limit of None \<Rightarrow> 200 | Some l \<Rightarrow> l) (logs s)"

subsection \<open>log (server.js 257-270)\<close>

definition log_bot :: "nat \<Rightarrow> level \<Rightarrow> message \<Rightarrow> bot \<Rightarrow> bot" where
  "log_bot now lvl msg s =
     (let logEntry = \<lparr>level = lvl, message = msg, l_createdAt = now\<rparr>
      in s\<lparr>logs := logs_unshift logEntry (logs s),
            trace := trace s @ [ConsoleLog lvl msg, Emit (LogEvent lvl msg now)]\<rparr>)"

subsection \<open>The API client (server.js 47-84)\<close>

text \<open>What happens to one call on the client: the request is answered
  (\<open>Resolved\<close>, with \<^verbatim>\<open>response.data\<close>), the request fails (\<open>Rejected\<close>: network,
  timeout or HTTP status, with \<^verbatim>\<open>error.message\<close>), or the call throws before any
  request is sent (\<open>Threw\<close>: \<^verbatim>\<open>getHeaders\<close> stands outside the \<^verbatim>\<open>try\<close>, and
  \<^verbatim>\<open>crypto.createHmac\<close> throws on a missing secret).\<close>

datatype 'a outcome = Resolved 'a | Rejected string | Threw string

fun threw :: "'a outcome \<Rightarrow> bool" where
  "threw (Threw m) = True"
| "threw r = False"

text \<open>\<^verbatim>\<open>getPositions\<close>: the argument of \<open>Resolved\<close> is \<^verbatim>\<open>response.data.result\<close>, an array
  of positions when present. The result is what the call does to the outside and
  what it returns: \<open>Inl\<close> an exception, \<open>Inr None\<close> the value \<^verbatim>\<open>null\<close>.\<close>

fun getPositions ::
  "position list option outcome \<Rightarrow> effect list \<times> (string + position list option)" where
  "getPositions (Resolved result) =
     ([HttpGet ''/v2/positions''],
      Inr (Some (case result of None \<Rightarrow> [] | Some ps \<Rightarrow> ps)))"
| "getPositions (Rejected m) =
     ([HttpGet ''/v2/positions'', ConsoleError ''Error fetching positions:'' m],
      Inr None)"
| "getPositions (Threw m) = ([], Inl m)"

definition order_data :: "int \<Rightarrow> real \<Rightarrow> string \<Rightarrow> order_body" where
  "order_data productId size' side' =
     \<lparr>product_id = productId,
      size_o = \<bar>size'\<bar>,
      side = side',
      order_type = ''market_order'',
      time_in_force = ''ioc''\<rparr>"

fun placeFutureOrder ::
  "int \<Rightarrow> real \<Rightarrow> string \<Rightarrow> string outcome \<Rightarrow> effect list \<times> (string + order_result)" where
  "placeFutureOrder productId size' side' (Resolved d) =
     ([HttpPost ''/v2/orders'' (order_data productId size' side')],
      Inr (OrderSuccess d))"
| "placeFutureOrder productId size' side' (Rejected m) =
     ([HttpPost ''/v2/orders'' (order_data productId size' side'),
       ConsoleError ''Error placing order:'' m],
      Inr (OrderFailure m))"
| "placeFutureOrder productId size' side' (Threw m) = ([], Inl m)"

text \<open>\<^verbatim>\<open>order && order.success\<close> on what the call gave: an exception is no success.\<close>

definition order_succeeded :: "string + order_result \<Rightarrow> bool" where
  "order_succeeded r = (case r of Inl m \<Rightarrow> False | Inr order \<Rightarrow> success order)"

subsection \<open>executeHedge (server.js 207-255)\<close>

definition executeHedge :: "nat \<Rightarrow> string outcome \<Rightarrow> real \<Rightarrow> bot \<Rightarrow> bot" where
  "executeHedge now answer currentDelta' s =
     (let hedgeSize' = - currentDelta' in
      if \<bar>hedgeSize'\<bar> < minHedgeSize (settings s)
      then log_bot now INFO (HedgeTooSmall \<bar>hedgeSize'\<bar>) s
      else
        let side' = (if hedgeSize' > 0 then ''buy'' else ''sell'');
            s1 = log_bot now WARNING (ThresholdBreached (currentDelta' * 100)) s;
            s2 = log_bot now INFO (ExecutingHedge side' \<bar>hedgeSize'\<bar>) s1;
            productId = ethFutureProductId (settings s2);
            called = placeFutureOrder productId \<bar>hedgeSize'\<bar> side' answer;
            s3 = s2\<lparr>trace := trace s2
                   @ ApiCall (PlaceFutureOrder productId \<bar>hedgeSize'\<bar> side') # fst called\<rparr>
        in case snd called of
             Inl m \<Rightarrow> log_bot now ERROR (HedgeError m) s3
           | Inr order \<Rightarrow>
               if success order then
                 let s4 = log_bot now INFO HedgeSuccessful s3;
                     s5 = s4\<lparr>totalTrades := totalTrades s4 + 1\<rparr>;
                     s6 = s5\<lparr>trades := trades_unshift
                            \<lparr>t_side = side', hedgeSize = hedgeSize',
                             t_currentDelta = currentDelta', orderResponse = order,
                             t_createdAt = now\<rparr> (trades s5)\<rparr>
                 in s6\<lparr>trace := trace s6
                      @ [Emit (TradeExecuted side' \<bar>hedgeSize'\<bar> currentDelta'
                           (totalTrades s6))]\<rparr>
               else log_bot now ERROR HedgeFailed s3)"

subsection \<open>checkAndHedge (server.js 136-179)\<close>

text \<open>The part before the first \<^verbatim>\<open>await\<close>: the log entry and the call on the client.\<close>

definition checkAndHedge_begin :: "nat \<Rightarrow> bot \<Rightarrow> bot" where
  "checkAndHedge_begin now s =
     (let s1 = log_bot now INFO CheckingPositions s
      in s1\<lparr>trace := trace s1 @ [ApiCall GetPositions]\<rparr>)"

text \<open>Lines 147-168: the exposure is computed, stored, appended to the history,
  logged and broadcast.\<close>

definition checkAndHedge_record ::
  "nat \<Rightarrow> position list \<Rightarrow> delta_info \<Rightarrow> bot \<Rightarrow> bot" where
  "checkAndHedge_record now positions deltaInfo s =
     (let s1 = s\<lparr>currentDelta := deltaPercentage deltaInfo,
                 bot_ethValue := ethValue deltaInfo,
                 lastCheck := Some now\<rparr>;
          s2 = s1\<lparr>deltaHistory := deltaHistory_push
                 \<lparr>h_deltaPercentage = currentDelta s1,
                  h_totalDelta = totalDelta deltaInfo,
                  h_ethValue = bot_ethValue s1,
                  positionsCount = length positions,
                  h_createdAt = now\<rparr> (deltaHistory s1)\<rparr>;
          s3 = log_bot now INFO (DeltaReport (currentDelta s2 * 100) (bot_ethValue s2)) s2
      in s3\<lparr>trace := trace s3
           @ [Emit (DeltaUpdate (currentDelta s3) (bot_ethValue s3) (lastCheck s3))]\<rparr>)"

text \<open>Lines 170-174: the threshold test.\<close>

definition checkAndHedge_decide :: "nat \<Rightarrow> string outcome \<Rightarrow> delta_info \<Rightarrow> bot \<Rightarrow> bot" where
  "checkAndHedge_decide now answer deltaInfo s =
     (if \<bar>currentDelta s\<bar> \<ge> deltaThreshold (settings s)
      then executeHedge now answer (totalDelta deltaInfo) s
      else log_bot now INFO (DeltaWithinRange (currentDelta s * 100)) s)"

text \<open>The part after the first \<^verbatim>\<open>await\<close>, on the outcome \<open>fetched\<close> of \<^verbatim>\<open>getPositions\<close>
  and the outcome \<open>answer\<close> of the order, should one be placed.\<close>

definition checkAndHedge_resume ::
  "nat \<Rightarrow> position list option outcome \<Rightarrow> string outcome \<Rightarrow> bot \<Rightarrow> bot" where
  "checkAndHedge_resume now fetched answer s =
     (let called = getPositions fetched;
          s1 = s\<lparr>trace := trace s @ fst called\<rparr>
      in case snd called of
           Inl m \<Rightarrow> log_bot now ERROR (CycleError m) s1
         | Inr None \<Rightarrow> log_bot now INFO NoOpenPositions s1
         | Inr (Some positions) \<Rightarrow>
             if length positions = 0 then log_bot now INFO NoOpenPositions s1
             else
               let deltaInfo = calculatePortfolioDelta positions
               in checkAndHedge_decide now answer deltaInfo
                    (checkAndHedge_record now positions deltaInfo s1))"

definition checkAndHedge ::
  "nat \<Rightarrow> position list option outcome \<Rightarrow> string outcome \<Rightarrow> bot \<Rightarrow> bot" where
  "checkAndHedge now fetched answer s =
     checkAndHedge_resume now fetched answer (checkAndHedge_begin now s)"

subsection \<open>start, stop and updateSettings (server.js 115-134, 272-287)\<close>

text \<open>\<open>interval\<close> is the armed timer, with its period. \<^verbatim>\<open>start\<close> calls
  \<^verbatim>\<open>checkAndHedge\<close> without awaiting it: inside \<^verbatim>\<open>start\<close> the cycle runs up to its
  first \<^verbatim>\<open>await\<close>, and the rest runs when the exchange answers.\<close>

definition start :: "nat \<Rightarrow> bot \<Rightarrow> bot" where
  "start now s =
     (if status s = Running then s
      else
        let s1 = s\<lparr>status := Running\<rparr>;
            s2 = log_bot now INFO BotStarted s1;
            s3 = s2\<lparr>interval := Some (checkInterval (settings s2)),
                   trace := trace s2 @ [SetInterval (checkInterval (settings s2))]\<rparr>
        in checkAndHedge_begin now s3)"

definition stop :: "nat \<Rightarrow> bot \<Rightarrow> bot" where
  "stop now s =
     (let s1 = (if interval s \<noteq> None
                then s\<lparr>interval := None, trace := trace s @ [ClearInterval]\<rparr>
                else s);
          s2 = s1\<lparr>status := Stopped\<rparr>
      in log_bot now INFO BotStopped s2)"

text \<open>\<^verbatim>\<open>if (newSettings.field)\<close>: a field that is absent and a field that is \<^verbatim>\<open>0\<close> are
  both falsy.\<close>

definition updateSettings :: "nat \<Rightarrow> new_settings \<Rightarrow> bot \<Rightarrow> bot" where
  "updateSettings now newSettings s =
     (let s1 = (case n_deltaThreshold newSettings of
                  None \<Rightarrow> s
                | Some v \<Rightarrow>
                    if v \<noteq> 0
                    then s\<lparr>settings := (settings s)\<lparr>deltaThreshold := v\<rparr>\<rparr>
                    else s);
          s2 = (case n_checkInterval newSettings of
                  None \<Rightarrow> s1
                | Some v \<Rightarrow>
                    if v \<noteq> 0
                    then
                      let s' = s1\<lparr>settings := (settings s1)\<lparr>checkInterval := v\<rparr>\<rparr>
                      in if status s' = Running then start now (stop now s') else s'
                    else s1);
          s3 = (case n_minHedgeSize newSettings of
                  None \<Rightarrow> s2
                | Some v \<Rightarrow>
                    if v \<noteq> 0
                    then s2\<lparr>settings := (settings s2)\<lparr>minHedgeSize := v\<rparr>\<rparr>
                    else s2)
      in log_bot now INFO SettingsUpdated s3)"

subsection \<open>The decision rule, in the words of the specification\<close>

text \<open>A hedge is due when the absolute delta percentage reaches the threshold and the
  absolute hedge size, the negated total delta, reaches the minimum hedge size.\<close>

definition spec_hedge_due :: "delta_info \<Rightarrow> settings \<Rightarrow> bool" where
  "spec_hedge_due di st =
     (\<bar>deltaPercentage di\<bar> \<ge> deltaThreshold st \<and> \<bar>- totalDelta di\<bar> \<ge> minHedgeSize st)"

subsection \<open>Concrete inputs\<close>

text \<open>The defaults of the constructor, when the environment sets none of the four
  variables.\<close>

definition default_settings :: settings where
  "default_settings =
     \<lparr>deltaThreshold = 0.15, checkInterval = 60000, minHedgeSize = 0.01,
      ethFutureProductId = 27\<rparr>"

definition example_trade :: "nat \<Rightarrow> trade" where
  "example_trade n =
     \<lparr>t_side = ''buy'', hedgeSize = 1, t_currentDelta = - 1,
      orderResponse = OrderSuccess [], t_createdAt = n\<rparr>"

text \<open>A future of size 3 with no mark price: it has delta, and no notional.\<close>

definition unpriced_future :: position where
  "unpriced_future =
     \<lparr>size_p = Some 3, delta = None, product_type = Some ''future'', mark_price = None\<rparr>"

text \<open>A future of size 2 marked at 1: its delta is all of its notional.\<close>

definition levered_future :: position where
  "levered_future =
     \<lparr>size_p = Some 2, delta = None, product_type = Some ''future'', mark_price = Some 1\<rparr>"

text \<open>The same with size 0.005, below the default minimum hedge size.\<close>

definition dust_future :: position where
  "dust_future =
     \<lparr>size_p = Some 0.005, delta = None, product_type = Some ''future'',
      mark_price = Some 1\<rparr>"

definition zero_settings :: new_settings where
  "zero_settings =
     \<lparr>n_deltaThreshold = Some 0, n_checkInterval = Some 0, n_minHedgeSize = Some 0\<rparr>"

section \<open>Properties\<close>

subsection \<open>The accumulators of the loop\<close>

lemma foldl_forEach_body:
  "foldl forEach_body (t, e) ps =
     (t + (\<Sum>p\<leftarrow>ps. positionDelta p),
      e + (\<Sum>p\<leftarrow>ps. \<bar>js_or (size_p p) 0\<bar> * js_or (mark_price p) 0))"
  by (induction ps arbitrary: t e) (simp_all add: Let_def algebra_simps)

lemma totalDelta_calculatePortfolioDelta:
  "totalDelta (calculatePortfolioDelta ps) = (\<Sum>p\<leftarrow>ps. positionDelta p)"
  by (simp add: calculatePortfolioDelta_def foldl_forEach_body)

lemma ethValue_calculatePortfolioDelta:
  "ethValue (calculatePortfolioDelta ps) =
     (\<Sum>p\<leftarrow>ps. \<bar>js_or (size_p p) 0\<bar> * js_or (mark_price p) 0)"
  by (simp add: calculatePortfolioDelta_def foldl_forEach_body)

lemma calculatePortfolioDelta_checked_eq:
  "calculatePortfolioDelta_checked ps = Some (calculatePortfolioDelta ps)"
  by (simp add: calculatePortfolioDelta_checked_def calculatePortfolioDelta_def
      js_divide_def split: prod.splits)


subsection \<open>The exposure calculation\<close>

text \<open>
  Claim C2. For the position list of the worked example (a future of size 2 marked at
  100, a call option of size 1 and delta 0.5 marked at 200) the exposure calculation
  returns totalDelta = 2.5, notional = 400 and deltaPercentage = 0.00625; and for every
  position list totalDelta is the sum, over the positions, of size for a future, of
  size * delta for a call or put option, and of 0 for anything else. The product types
  are the strings the program compares with: \<^verbatim>\<open>'future'\<close>, \<^verbatim>\<open>'call_options'\<close> and
  \<^verbatim>\<open>'put_options'\<close>; an absent size or delta counts as 0.
\<close>

theorem calculatePortfolioDelta_worked_example:
  "calculatePortfolioDelta [example_future, example_call] =
     \<lparr>deltaPercentage = 0.00625, totalDelta = 2.5, ethValue = 400\<rparr>
   \<and> totalDelta (calculatePortfolioDelta ps) =
       (\<Sum>p\<leftarrow>ps.
          if js_or_str (product_type p) [] = ''future'' then js_or (size_p p) 0
          else if js_or_str (product_type p) [] \<in> {''call_options'', ''put_options''}
               then js_or (size_p p) 0 * js_or (delta p) 0
          else 0)"
proof
  show "calculatePortfolioDelta [example_future, example_call] =
     \<lparr>deltaPercentage = 0.00625, totalDelta = 2.5, ethValue = 400\<rparr>"
    by (simp add: calculatePortfolioDelta_def example_future_def example_call_def
        positionDelta_def js_or_def js_or_str_def)
next
  show "totalDelta (calculatePortfolioDelta ps) =
       (\<Sum>p\<leftarrow>ps.
          if js_or_str (product_type p) [] = ''future'' then js_or (size_p p) 0
          else if js_or_str (product_type p) [] \<in> {''call_options'', ''put_options''}
               then js_or (size_p p) 0 * js_or (delta p) 0
          else 0)"
    by (simp add: totalDelta_calculatePortfolioDelta positionDelta_def Let_def cong: if_cong)
qed

text \<open>
  Claim C6. On the empty list the exposure calculation returns totalDelta = 0,
  notional = 0 and deltaPercentage = 0; for every position list whose notional is 0,
  deltaPercentage is 0; and no division by zero occurs: the calculation with the
  checked division never fails and returns the same summary.
\<close>

theorem calculatePortfolioDelta_no_division_by_zero:
  "calculatePortfolioDelta [] = \<lparr>deltaPercentage = 0, totalDelta = 0, ethValue = 0\<rparr>
   \<and> (ethValue (calculatePortfolioDelta ps) = 0
        \<longrightarrow> deltaPercentage (calculatePortfolioDelta ps) = 0)
   \<and> calculatePortfolioDelta_checked ps = Some (calculatePortfolioDelta ps)"
proof (intro conjI impI)
  show "calculatePortfolioDelta [] = \<lparr>deltaPercentage = 0, totalDelta = 0, ethValue = 0\<rparr>"
    by (simp add: calculatePortfolioDelta_def)
next
  assume "ethValue (calculatePortfolioDelta ps) = 0"
  then show "deltaPercentage (calculatePortfolioDelta ps) = 0"
    by (simp add: calculatePortfolioDelta_def split: prod.splits)
next
  show "calculatePortfolioDelta_checked ps = Some (calculatePortfolioDelta ps)"
    by (rule calculatePortfolioDelta_checked_eq)
qed

theorem calculatePortfolioDelta_no_division_by_zero_witness:
  "ethValue (calculatePortfolioDelta [unpriced_future]) = 0
   \<and> totalDelta (calculatePortfolioDelta [unpriced_future]) = 3
   \<and> deltaPercentage (calculatePortfolioDelta [unpriced_future]) = 0
   \<and> calculatePortfolioDelta_checked [unpriced_future] =
       Some \<lparr>deltaPercentage = 0, totalDelta = 3, ethValue = 0\<rparr>"
  using calculatePortfolioDelta_no_division_by_zero [of "[unpriced_future]"]
  by (simp add: calculatePortfolioDelta_def unpriced_future_def positionDelta_def
      js_or_def js_or_str_def)

subsection \<open>The bounded buffers\<close>

lemma deltaHistory_push_drop:
  assumes "length h \<le> 100"
  shows "deltaHistory_push e h = drop (length h + 1 - 100) (h @ [e])"
proof (cases "length h = 100")
  case True
  then have "h \<noteq> []" by auto
  with True show ?thesis by (simp add: deltaHistory_push_def Let_def drop_Suc)
next
  case False
  with assms show ?thesis by (simp add: deltaHistory_push_def Let_def)
qed

lemma length_deltaHistory_push:
  "length h \<le> 100 \<Longrightarrow> length (deltaHistory_push e h) \<le> 100"
  by (simp add: deltaHistory_push_drop)

lemma deltaHistory_appends_drop:
  assumes "length h \<le> 100"
  shows "deltaHistory_appends h es = drop (length (h @ es) - 100) (h @ es)"
proof (induction es rule: rev_induct)
  case Nil
  from assms show ?case by (simp add: deltaHistory_appends_def)
next
  case (snoc e es)
  let ?X = "h @ es"
  let ?D = "drop (length ?X - 100) ?X"
  have len: "length ?D \<le> 100" by simp
  have "deltaHistory_appends h (es @ [e]) = deltaHistory_push e ?D"
    using snoc by (simp add: deltaHistory_appends_def)
  also have "\<dots> = drop (length ?D + 1 - 100) (?D @ [e])"
    by (rule deltaHistory_push_drop [OF len])
  also have "?D @ [e] = drop (length ?X - 100) (?X @ [e])" by simp
  also have "drop (length ?D + 1 - 100) (drop (length ?X - 100) (?X @ [e]))
     = drop (length (h @ es @ [e]) - 100) (h @ es @ [e])"
    by (simp del: drop_append) (rule arg_cong2 [where f = drop], auto)
  finally show ?case by simp
qed

lemma trades_unshift_take:
  assumes "length ts \<le> 50"
  shows "trades_unshift t ts = take 50 (t # ts)"
proof (cases "length ts = 50")
  case True
  then show ?thesis by (simp add: trades_unshift_def Let_def butlast_conv_take)
next
  case False
  with assms show ?thesis by (simp add: trades_unshift_def Let_def)
qed

lemma length_trades_unshift:
  "length ts \<le> 50 \<Longrightarrow> length (trades_unshift t ts) \<le> 50"
  by (simp add: trades_unshift_take)

lemma trades_appends_take:
  assumes "length ts \<le> 50"
  shows "trades_appends ts xs = take 50 (rev xs @ ts)"
proof (induction xs rule: rev_induct)
  case Nil
  from assms show ?case by (simp add: trades_appends_def)
next
  case (snoc x xs)
  have "trades_appends ts (xs @ [x]) = trades_unshift x (take 50 (rev xs @ ts))"
    using snoc by (simp add: trades_appends_def)
  also have "\<dots> = take 50 (x # take 50 (rev xs @ ts))"
    by (rule trades_unshift_take) simp
  also have "\<dots> = take 50 (rev (xs @ [x]) @ ts)"
    by (simp add: take_Cons' min_def)
  finally show ?case .
qed

lemma slice_0_whole: "int (length xs) \<le> e \<Longrightarrow> slice 0 e xs = xs"
  by (simp add: slice_def Let_def)

text \<open>
  Claim C8. Under any sequence of appends to a delta history of at most 100 entries
  (the constructor's is empty), the history never holds more than 100 entries; it is
  the last 100 of everything appended, in the order of insertion, so that an eviction
  removes the oldest entry; and the newest entry is at the tail.
\<close>

theorem deltaHistory_bounded_oldest_first:
  assumes "length h \<le> 100"
  shows "length (deltaHistory_appends h es) \<le> 100
    \<and> deltaHistory_appends h es = drop (length (h @ es) - 100) (h @ es)
    \<and> (length h = 100 \<longrightarrow> deltaHistory_push e h = tl h @ [e])
    \<and> (es \<noteq> [] \<longrightarrow> last (deltaHistory_appends h es) = last es)"
proof (intro conjI impI)
  show "length (deltaHistory_appends h es) \<le> 100"
    by (simp add: deltaHistory_appends_drop [OF assms])
next
  show "deltaHistory_appends h es = drop (length (h @ es) - 100) (h @ es)"
    by (rule deltaHistory_appends_drop [OF assms])
next
  assume full: "length h = 100"
  then have "h \<noteq> []" by auto
  with full show "deltaHistory_push e h = tl h @ [e]"
    by (simp add: deltaHistory_push_def Let_def)
next
  assume "es \<noteq> []"
  then have "length (h @ es) - 100 < length (h @ es)"
    by (cases es) auto
  then have "last (drop (length (h @ es) - 100) (h @ es)) = last (h @ es)"
    by (rule last_drop)
  with \<open>es \<noteq> []\<close> show "last (deltaHistory_appends h es) = last es"
    by (simp add: deltaHistory_appends_drop [OF assms])
qed

theorem deltaHistory_bounded_oldest_first_witness:
  "length ([] :: nat list) \<le> 100
   \<and> length (deltaHistory_appends [] [0..<103]) \<le> 100
   \<and> deltaHistory_appends [] [0..<103] = [3..<103]
   \<and> deltaHistory_push 100 [0..<100] = [1..<100] @ [100]
   \<and> last (deltaHistory_appends [] [0..<103]) = 102"
  using deltaHistory_bounded_oldest_first [of "[]" "[0..<103]" 100]
    deltaHistory_bounded_oldest_first [of "[0..<100]" "[]" 100]
  by (simp add: drop_upt tl_upt del: upt_Suc)

text \<open>
  Claim C9. Under any sequence of appends to a trade buffer of at most 50 entries, the
  buffer never holds more than 50 entries; it is the 50 most recent of everything
  appended, newest first, so that an eviction removes the oldest entry, at the tail;
  and the trade appended last is at index 0, of the buffer and of what
  \<^verbatim>\<open>getRecentTrades\<close> returns.
\<close>

theorem trades_bounded_newest_first:
  assumes "length (trades s) \<le> 50"
  shows "length (trades_appends (trades s) ts) \<le> 50
    \<and> trades_appends (trades s) ts = take 50 (rev ts @ trades s)
    \<and> (length (trades s) = 50 \<longrightarrow> trades_unshift t (trades s) = t # butlast (trades s))
    \<and> (ts \<noteq> [] \<longrightarrow>
         trades_appends (trades s) ts ! 0 = last ts
       \<and> getRecentTrades None (s\<lparr>trades := trades_appends (trades s) ts\<rparr>) ! 0 = last ts
       \<and> getRecentTrades None (s\<lparr>trades := trades_appends (trades s) ts\<rparr>) \<noteq> [])"
proof (intro conjI impI)
  show len: "length (trades_appends (trades s) ts) \<le> 50"
    by (simp add: trades_appends_take [OF assms])
  show "trades_appends (trades s) ts = take 50 (rev ts @ trades s)"
    by (rule trades_appends_take [OF assms])
  have whole: "getRecentTrades None (s\<lparr>trades := trades_appends (trades s) ts\<rparr>)
      = trades_appends (trades s) ts"
    using len by (simp add: getRecentTrades_def slice_0_whole)
  {
    assume full: "length (trades s) = 50"
    then have "trades s \<noteq> []" by auto
    with full show "trades_unshift t (trades s) = t # butlast (trades s)"
      by (simp add: trades_unshift_def Let_def)
  }
  {
    assume ne: "ts \<noteq> []"
    then obtain x xs where ts: "ts = xs @ [x]"
      by (cases ts rule: rev_cases) auto
    show first: "trades_appends (trades s) ts ! 0 = last ts"
      by (simp add: trades_appends_take [OF assms] ts)
    show "getRecentTrades None (s\<lparr>trades := trades_appends (trades s) ts\<rparr>) ! 0 = last ts"
      using first by (simp only: whole)
    show "getRecentTrades None (s\<lparr>trades := trades_appends (trades s) ts\<rparr>) \<noteq> []"
      unfolding whole by (simp add: trades_appends_take [OF assms] ts)
  }
qed

theorem trades_bounded_newest_first_witness:
  "length (trades (constructor default_settings)) \<le> 50
   \<and> length (trades_appends (trades (constructor default_settings))
        (map example_trade [0..<52])) \<le> 50
   \<and> trades_appends (trades (constructor default_settings))
        (map example_trade [0..<52]) ! 0 = example_trade 51
   \<and> getRecentTrades None ((constructor default_settings)
         \<lparr>trades := trades_appends (trades (constructor default_settings))
            (map example_trade [0..<52])\<rparr>) ! 0 = example_trade 51
   \<and> map t_createdAt (trades_appends (trades (constructor default_settings))
        (map example_trade [0..<52])) = rev [2..<52]"
proof -
  let ?s = "constructor default_settings"
  let ?ts = "map example_trade [0..<52]"
  have h: "length (trades ?s) \<le> 50"
    by (simp add: constructor_def)
  have ne: "?ts \<noteq> []"
    by simp
  have l: "last ?ts = example_trade 51"
    by (simp add: last_map del: upt_Suc)
  have e: "map t_createdAt (trades_appends (trades ?s) ?ts) = rev [2..<52]"
    by code_simp
  note T = trades_bounded_newest_first [OF h, of ?ts "example_trade 50"]
  from T have A: "length (trades_appends (trades ?s) ?ts) \<le> 50"
    by (rule conjunct1)
  from T ne have B: "trades_appends (trades ?s) ?ts ! 0 = last ?ts"
    by blast
  from T ne have C:
    "getRecentTrades None (?s\<lparr>trades := trades_appends (trades ?s) ?ts\<rparr>) ! 0 = last ?ts"
    by blast
  show ?thesis
    using h A B [unfolded l] C [unfolded l] e by (intro conjI)
qed

lemma getDeltaHistory_whole:
  "length (deltaHistory s) \<le> 100 \<Longrightarrow> getDeltaHistory None s = deltaHistory s"
  by (simp add: getDeltaHistory_def slice_def Let_def)

subsection \<open>What each step changes\<close>

lemma log_bot_fields:
  "status (log_bot now l m s) = status s"
  "currentDelta (log_bot now l m s) = currentDelta s"
  "bot_ethValue (log_bot now l m s) = bot_ethValue s"
  "totalTrades (log_bot now l m s) = totalTrades s"
  "lastCheck (log_bot now l m s) = lastCheck s"
  "settings (log_bot now l m s) = settings s"
  "deltaHistory (log_bot now l m s) = deltaHistory s"
  "trades (log_bot now l m s) = trades s"
  "interval (log_bot now l m s) = interval s"
  "logs (log_bot now l m s) =
     logs_unshift \<lparr>level = l, message = m, l_createdAt = now\<rparr> (logs s)"
  "trace (log_bot now l m s) = trace s @ [ConsoleLog l m, Emit (LogEvent l m now)]"
  by (simp_all add: log_bot_def)

lemma hd_logs_unshift: "hd (logs_unshift e ls) = e"
  by (cases ls) (simp_all add: logs_unshift_def Let_def)

lemma begin_trace:
  "trace (checkAndHedge_begin now s) = trace s @
     [ConsoleLog INFO CheckingPositions, Emit (LogEvent INFO CheckingPositions now),
      ApiCall GetPositions]"
  by (simp add: checkAndHedge_begin_def Let_def log_bot_fields)

lemma begin_fields:
  "settings (checkAndHedge_begin now s) = settings s"
  "trades (checkAndHedge_begin now s) = trades s"
  "totalTrades (checkAndHedge_begin now s) = totalTrades s"
  "status (checkAndHedge_begin now s) = status s"
  "interval (checkAndHedge_begin now s) = interval s"
  "deltaHistory (checkAndHedge_begin now s) = deltaHistory s"
  by (simp_all add: checkAndHedge_begin_def Let_def log_bot_fields)

lemma record_fields:
  "settings (checkAndHedge_record now ps di s) = settings s"
  "currentDelta (checkAndHedge_record now ps di s) = deltaPercentage di"
  "bot_ethValue (checkAndHedge_record now ps di s) = ethValue di"
  "lastCheck (checkAndHedge_record now ps di s) = Some now"
  "trades (checkAndHedge_record now ps di s) = trades s"
  "totalTrades (checkAndHedge_record now ps di s) = totalTrades s"
  "status (checkAndHedge_record now ps di s) = status s"
  "interval (checkAndHedge_record now ps di s) = interval s"
  by (simp_all add: checkAndHedge_record_def Let_def log_bot_fields)

lemma record_trace:
  "trace (checkAndHedge_record now ps di s) = trace s @
     [ConsoleLog INFO (DeltaReport (deltaPercentage di * 100) (ethValue di)),
      Emit (LogEvent INFO (DeltaReport (deltaPercentage di * 100) (ethValue di)) now),
      Emit (DeltaUpdate (deltaPercentage di) (ethValue di) (Some now))]"
  by (simp add: checkAndHedge_record_def Let_def log_bot_fields)

lemma decide_fields:
  "currentDelta (checkAndHedge_decide now answer di s) = currentDelta s"
  "bot_ethValue (checkAndHedge_decide now answer di s) = bot_ethValue s"
  "lastCheck (checkAndHedge_decide now answer di s) = lastCheck s"
  "settings (checkAndHedge_decide now answer di s) = settings s"
  "status (checkAndHedge_decide now answer di s) = status s"
  "interval (checkAndHedge_decide now answer di s) = interval s"
  "deltaHistory (checkAndHedge_decide now answer di s) = deltaHistory s"
  by (cases answer; simp add: checkAndHedge_decide_def executeHedge_def Let_def log_bot_fields)+

lemma start_fields:
  "settings (start now s) = settings s"
  "trades (start now s) = trades s"
  "totalTrades (start now s) = totalTrades s"
  "deltaHistory (start now s) = deltaHistory s"
  by (simp_all add: start_def Let_def begin_fields log_bot_fields)

lemma stop_fields:
  "settings (stop now s) = settings s"
  "trades (stop now s) = trades s"
  "totalTrades (stop now s) = totalTrades s"
  "deltaHistory (stop now s) = deltaHistory s"
  "status (stop now s) = Stopped"
  by (simp_all add: stop_def Let_def log_bot_fields)

text \<open>A cycle that fetched at least one position: the trace up to the broadcast, and
  then the decision.\<close>

lemma checkAndHedge_positions:
  assumes "ps \<noteq> []"
  shows "checkAndHedge now (Resolved (Some ps)) answer s =
      checkAndHedge_decide now answer (calculatePortfolioDelta ps)
        (checkAndHedge_record now ps (calculatePortfolioDelta ps)
           ((checkAndHedge_begin now s)
              \<lparr>trace := trace (checkAndHedge_begin now s) @ [HttpGet ''/v2/positions'']\<rparr>))"
  using assms by (simp add: checkAndHedge_def checkAndHedge_resume_def Let_def)

lemma executeHedge_trace_ext:
  "\<exists>xs. trace (executeHedge now answer d s) = trace s @ xs"
  by (cases answer) (simp_all add: executeHedge_def Let_def log_bot_fields)

lemma decide_trace_ext:
  "\<exists>xs. trace (checkAndHedge_decide now answer di s) = trace s @ xs"
  using executeHedge_trace_ext [of now answer _ s]
  by (simp add: checkAndHedge_decide_def log_bot_fields)

lemma checkAndHedge_positions_effects:
  assumes "ps \<noteq> []"
  shows "\<exists>r. checkAndHedge now (Resolved (Some ps)) answer s =
        checkAndHedge_decide now answer (calculatePortfolioDelta ps) r
    \<and> settings r = settings s
    \<and> currentDelta r = deltaPercentage (calculatePortfolioDelta ps)
    \<and> effects_since s (checkAndHedge now (Resolved (Some ps)) answer s) =
       [ConsoleLog INFO CheckingPositions, Emit (LogEvent INFO CheckingPositions now),
        ApiCall GetPositions, HttpGet ''/v2/positions'',
        ConsoleLog INFO (DeltaReport (deltaPercentage (calculatePortfolioDelta ps) * 100)
          (ethValue (calculatePortfolioDelta ps))),
        Emit (LogEvent INFO (DeltaReport (deltaPercentage (calculatePortfolioDelta ps) * 100)
          (ethValue (calculatePortfolioDelta ps))) now),
        Emit (DeltaUpdate (deltaPercentage (calculatePortfolioDelta ps))
          (ethValue (calculatePortfolioDelta ps)) (Some now))]
       @ effects_since r (checkAndHedge_decide now answer (calculatePortfolioDelta ps) r)"
proof -
  let ?di = "calculatePortfolioDelta ps"
  let ?b = "checkAndHedge_begin now s"
  let ?g = "?b\<lparr>trace := trace ?b @ [HttpGet ''/v2/positions'']\<rparr>"
  let ?r = "checkAndHedge_record now ps ?di ?g"
  let ?d = "checkAndHedge_decide now answer ?di ?r"
  obtain xs where xs: "trace ?d = trace ?r @ xs"
    using decide_trace_ext by blast
  have r: "trace ?r = trace s @
     [ConsoleLog INFO CheckingPositions, Emit (LogEvent INFO CheckingPositions now),
      ApiCall GetPositions, HttpGet ''/v2/positions'',
      ConsoleLog INFO (DeltaReport (deltaPercentage ?di * 100) (ethValue ?di)),
      Emit (LogEvent INFO (DeltaReport (deltaPercentage ?di * 100) (ethValue ?di)) now),
      Emit (DeltaUpdate (deltaPercentage ?di) (ethValue ?di) (Some now))]"
    by (simp add: record_trace begin_trace)
  have "effects_since s ?d = effects_since s ?r @ effects_since ?r ?d"
    using xs r by (simp add: effects_since_def)
  then have "effects_since s ?d = drop (length (trace s)) (trace ?r) @ effects_since ?r ?d"
    by (simp add: effects_since_def)
  then have e: "effects_since s (checkAndHedge now (Resolved (Some ps)) answer s) =
       [ConsoleLog INFO CheckingPositions, Emit (LogEvent INFO CheckingPositions now),
        ApiCall GetPositions, HttpGet ''/v2/positions'',
        ConsoleLog INFO (DeltaReport (deltaPercentage ?di * 100) (ethValue ?di)),
        Emit (LogEvent INFO (DeltaReport (deltaPercentage ?di * 100) (ethValue ?di)) now),
        Emit (DeltaUpdate (deltaPercentage ?di) (ethValue ?di) (Some now))]
       @ effects_since ?r ?d"
    unfolding checkAndHedge_positions [OF assms] by (simp add: r)
  have "checkAndHedge now (Resolved (Some ps)) answer s = ?d"
    by (rule checkAndHedge_positions [OF assms])
  moreover have "settings ?r = settings s"
    by (simp add: record_fields begin_fields)
  moreover have "currentDelta ?r = deltaPercentage ?di"
    by (simp add: record_fields)
  ultimately show ?thesis
    using e by blast
qed

lemma decide_calls:
  "filter is_order_call (effects_since s (checkAndHedge_decide now answer di s)) =
     (if \<bar>currentDelta s\<bar> \<ge> deltaThreshold (settings s)
         \<and> \<bar>- totalDelta di\<bar> \<ge> minHedgeSize (settings s)
      then [ApiCall (PlaceFutureOrder (ethFutureProductId (settings s)) \<bar>- totalDelta di\<bar>
              (if - totalDelta di > 0 then ''buy'' else ''sell''))]
      else [])"
  by (cases answer)
    (simp_all add: checkAndHedge_decide_def executeHedge_def Let_def log_bot_fields
      effects_since_def)

lemma decide_posts:
  "filter is_post (effects_since s (checkAndHedge_decide now answer di s)) =
     (if \<bar>currentDelta s\<bar> \<ge> deltaThreshold (settings s)
         \<and> \<bar>- totalDelta di\<bar> \<ge> minHedgeSize (settings s) \<and> \<not> threw answer
      then [HttpPost ''/v2/orders''
              (order_data (ethFutureProductId (settings s)) \<bar>- totalDelta di\<bar>
                 (if - totalDelta di > 0 then ''buy'' else ''sell''))]
      else [])"
  by (cases answer)
    (simp_all add: checkAndHedge_decide_def executeHedge_def Let_def log_bot_fields
      effects_since_def)

lemma decide_only_log:
  "\<not> (\<bar>currentDelta s\<bar> \<ge> deltaThreshold (settings s)
      \<and> \<bar>- totalDelta di\<bar> \<ge> minHedgeSize (settings s)) \<Longrightarrow>
   checkAndHedge_decide now answer di s =
     log_bot now INFO
       (if \<bar>currentDelta s\<bar> < deltaThreshold (settings s)
        then DeltaWithinRange (currentDelta s * 100)
        else HedgeTooSmall \<bar>- totalDelta di\<bar>) s"
  by (auto simp add: checkAndHedge_decide_def executeHedge_def Let_def)

lemma decide_no_deltaUpdate:
  "filter is_deltaUpdate (effects_since s (checkAndHedge_decide now answer di s)) = []"
  by (cases answer)
    (simp_all add: checkAndHedge_decide_def executeHedge_def Let_def log_bot_fields
      effects_since_def)

lemma calculatePortfolioDelta_example:
  "calculatePortfolioDelta [example_future, example_call] =
     \<lparr>deltaPercentage = 0.00625, totalDelta = 2.5, ethValue = 400\<rparr>"
  by (simp add: calculatePortfolioDelta_def example_future_def example_call_def
      positionDelta_def js_or_def js_or_str_def)

lemma calculatePortfolioDelta_levered:
  "calculatePortfolioDelta [levered_future] =
     \<lparr>deltaPercentage = 1, totalDelta = 2, ethValue = 2\<rparr>"
  by (simp add: calculatePortfolioDelta_def levered_future_def positionDelta_def
      js_or_def js_or_str_def)

lemma calculatePortfolioDelta_dust:
  "calculatePortfolioDelta [dust_future] =
     \<lparr>deltaPercentage = 1, totalDelta = 0.005, ethValue = 0.005\<rparr>"
  by (simp add: calculatePortfolioDelta_def dust_future_def positionDelta_def
      js_or_def js_or_str_def)

subsection \<open>The body of an order\<close>

text \<open>
  Claim C3, as the specification states it, fails: for product 27, size -0.5 and side
  sell the request sent to \<^verbatim>\<open>/v2/orders\<close> is not the one whose \<^verbatim>\<open>time_in_force\<close> is
  \<^verbatim>\<open>"immediate_or_cancel"\<close>.
\<close>

theorem order_body_time_in_force_counterexample:
  "fst (placeFutureOrder 27 (- 0.5) ''sell'' (Resolved ''ok'')) \<noteq>
     [HttpPost ''/v2/orders''
        \<lparr>product_id = 27, size_o = \<bar>- 0.5\<bar>, side = ''sell'',
         order_type = ''market_order'', time_in_force = ''immediate_or_cancel''\<rparr>]"
  by (simp add: order_data_def)

text \<open>
  Claim C3, amended. For every order submission with product id p, size z and side d,
  the body posted to \<^verbatim>\<open>/v2/orders\<close> is exactly \<^verbatim>\<open>{product_id: p, size: abs(z), side: d,
  order_type: "market_order", time_in_force: "ioc"}\<close>; one request is sent, unless
  the call throws before sending.
\<close>

theorem placeFutureOrder_post_body:
  "filter is_post (fst (placeFutureOrder p z d answer)) =
     (if threw answer then []
      else [HttpPost ''/v2/orders''
              \<lparr>product_id = p, size_o = \<bar>z\<bar>, side = d, order_type = ''market_order'',
               time_in_force = ''ioc''\<rparr>])"
  by (cases answer) (simp_all add: order_data_def)

theorem placeFutureOrder_post_body_witness:
  "fst (placeFutureOrder 27 (- 0.5) ''sell'' (Resolved ''ok'')) =
     [HttpPost ''/v2/orders''
        \<lparr>product_id = 27, size_o = 0.5, side = ''sell'', order_type = ''market_order'',
         time_in_force = ''ioc''\<rparr>]"
  using placeFutureOrder_post_body [where p = 27 and z = "- 0.5" and d = "''sell''"
      and answer = "Resolved ''ok''"]
  by (simp add: order_data_def)

subsection \<open>The hedge decision\<close>

text \<open>
  Claim C1. For every exposure summary and settings, \<^verbatim>\<open>placeFutureOrder\<close> is called on
  the API client, once, if and only if |deltaPercentage| >= deltaThreshold and
  |hedgeSize| >= minHedgeSize, where hedgeSize = -totalDelta; the request is then posted
  to the exchange, unless the call throws before sending. Otherwise no order call is made
  and the decision is one log entry and nothing else: "within range" below the threshold,
  "too small" below the minimum size. The same count holds for the whole cycle that
  fetched a non-empty position list.
\<close>

theorem hedge_submitted_iff_thresholds:
  "filter is_order_call
     (effects_since (checkAndHedge_record now ps di s)
        (checkAndHedge_decide now answer di (checkAndHedge_record now ps di s))) =
     (if spec_hedge_due di (settings s)
      then [ApiCall (PlaceFutureOrder (ethFutureProductId (settings s)) \<bar>- totalDelta di\<bar>
              (if - totalDelta di > 0 then ''buy'' else ''sell''))]
      else [])
   \<and> filter is_post
     (effects_since (checkAndHedge_record now ps di s)
        (checkAndHedge_decide now answer di (checkAndHedge_record now ps di s))) =
     (if spec_hedge_due di (settings s) \<and> \<not> threw answer
      then [HttpPost ''/v2/orders''
              (order_data (ethFutureProductId (settings s)) \<bar>- totalDelta di\<bar>
                 (if - totalDelta di > 0 then ''buy'' else ''sell''))]
      else [])
   \<and> (\<not> spec_hedge_due di (settings s) \<longrightarrow>
        checkAndHedge_decide now answer di (checkAndHedge_record now ps di s) =
          log_bot now INFO
            (if \<bar>deltaPercentage di\<bar> < deltaThreshold (settings s)
             then DeltaWithinRange (deltaPercentage di * 100)
             else HedgeTooSmall \<bar>- totalDelta di\<bar>)
            (checkAndHedge_record now ps di s))
   \<and> (ps \<noteq> [] \<longrightarrow>
        filter is_order_call
          (effects_since s (checkAndHedge now (Resolved (Some ps)) answer s)) =
          (if spec_hedge_due (calculatePortfolioDelta ps) (settings s)
           then [ApiCall (PlaceFutureOrder (ethFutureProductId (settings s))
                   \<bar>- totalDelta (calculatePortfolioDelta ps)\<bar>
                   (if - totalDelta (calculatePortfolioDelta ps) > 0
                    then ''buy'' else ''sell''))]
           else []))"
proof (intro conjI impI)
  let ?r = "checkAndHedge_record now ps di s"
  show "filter is_order_call (effects_since ?r (checkAndHedge_decide now answer di ?r)) =
     (if spec_hedge_due di (settings s)
      then [ApiCall (PlaceFutureOrder (ethFutureProductId (settings s)) \<bar>- totalDelta di\<bar>
              (if - totalDelta di > 0 then ''buy'' else ''sell''))]
      else [])"
    by (simp add: decide_calls record_fields spec_hedge_due_def)
  show "filter is_post (effects_since ?r (checkAndHedge_decide now answer di ?r)) =
     (if spec_hedge_due di (settings s) \<and> \<not> threw answer
      then [HttpPost ''/v2/orders''
              (order_data (ethFutureProductId (settings s)) \<bar>- totalDelta di\<bar>
                 (if - totalDelta di > 0 then ''buy'' else ''sell''))]
      else [])"
    by (simp add: decide_posts record_fields spec_hedge_due_def)
  {
    assume "\<not> spec_hedge_due di (settings s)"
    then have "\<not> (\<bar>currentDelta ?r\<bar> \<ge> deltaThreshold (settings ?r)
                 \<and> \<bar>- totalDelta di\<bar> \<ge> minHedgeSize (settings ?r))"
      by (simp add: record_fields spec_hedge_due_def)
    from decide_only_log [OF this, of now answer]
    show "checkAndHedge_decide now answer di ?r =
            log_bot now INFO
              (if \<bar>deltaPercentage di\<bar> < deltaThreshold (settings s)
               then DeltaWithinRange (deltaPercentage di * 100)
               else HedgeTooSmall \<bar>- totalDelta di\<bar>) ?r"
      by (simp add: record_fields)
  }
  {
    assume "ps \<noteq> []"
    from checkAndHedge_positions_effects [OF this, of now answer s]
    obtain r where r:
      "settings r = settings s"
      "currentDelta r = deltaPercentage (calculatePortfolioDelta ps)"
      "filter is_order_call
         (effects_since s (checkAndHedge now (Resolved (Some ps)) answer s)) =
       filter is_order_call
         (effects_since r (checkAndHedge_decide now answer (calculatePortfolioDelta ps) r))"
      by auto
    show "filter is_order_call
            (effects_since s (checkAndHedge now (Resolved (Some ps)) answer s)) =
            (if spec_hedge_due (calculatePortfolioDelta ps) (settings s)
             then [ApiCall (PlaceFutureOrder (ethFutureProductId (settings s))
                     \<bar>- totalDelta (calculatePortfolioDelta ps)\<bar>
                     (if - totalDelta (calculatePortfolioDelta ps) > 0
                      then ''buy'' else ''sell''))]
             else [])"
      unfolding r(3) by (simp add: decide_calls r(1,2) spec_hedge_due_def)
  }
qed

theorem hedge_submitted_iff_thresholds_witness:
  "filter is_order_call
     (effects_since (constructor default_settings)
        (checkAndHedge 7 (Resolved (Some [levered_future])) (Resolved ''ok'')
           (constructor default_settings)))
     = [ApiCall (PlaceFutureOrder 27 2 ''sell'')]
   \<and> filter is_order_call
     (effects_since (constructor default_settings)
        (checkAndHedge 7 (Resolved (Some [example_future, example_call])) (Resolved ''ok'')
           (constructor default_settings)))
     = []
   \<and> filter is_order_call
     (effects_since (constructor default_settings)
        (checkAndHedge 7 (Resolved (Some [dust_future])) (Resolved ''ok'')
           (constructor default_settings)))
     = []
   \<and> checkAndHedge_decide 7 (Resolved ''ok'')
        \<lparr>deltaPercentage = 0.00625, totalDelta = 2.5, ethValue = 400\<rparr>
        (checkAndHedge_record 7 [example_future, example_call]
           \<lparr>deltaPercentage = 0.00625, totalDelta = 2.5, ethValue = 400\<rparr>
           (constructor default_settings))
     = log_bot 7 INFO (DeltaWithinRange 0.625)
        (checkAndHedge_record 7 [example_future, example_call]
           \<lparr>deltaPercentage = 0.00625, totalDelta = 2.5, ethValue = 400\<rparr>
           (constructor default_settings))"
proof -
  let ?s = "constructor default_settings"
  have st: "settings ?s = default_settings"
    by (simp add: constructor_def)
  note ex = calculatePortfolioDelta_example calculatePortfolioDelta_levered
    calculatePortfolioDelta_dust
  have due: "spec_hedge_due \<lparr>deltaPercentage = 1, totalDelta = 2, ethValue = 2\<rparr>
      default_settings"
    by (simp add: spec_hedge_due_def default_settings_def)
  have not_due: "\<not> spec_hedge_due
      \<lparr>deltaPercentage = 0.00625, totalDelta = 2.5, ethValue = 400\<rparr> default_settings"
    by (simp add: spec_hedge_due_def default_settings_def)
  have too_small: "\<not> spec_hedge_due
      \<lparr>deltaPercentage = 1, totalDelta = 0.005, ethValue = 0.005\<rparr> default_settings"
    by (simp add: spec_hedge_due_def default_settings_def)
  note A = hedge_submitted_iff_thresholds [where now = 7 and ps = "[levered_future]"
      and s = ?s and answer = "Resolved ''ok''"]
  note B = hedge_submitted_iff_thresholds [where now = 7
      and ps = "[example_future, example_call]"
      and di = "\<lparr>deltaPercentage = 0.00625, totalDelta = 2.5, ethValue = 400\<rparr>"
      and s = ?s and answer = "Resolved ''ok''"]
  note C = hedge_submitted_iff_thresholds [where now = 7 and ps = "[dust_future]"
      and s = ?s and answer = "Resolved ''ok''"]
  from A due have 1: "filter is_order_call
     (effects_since ?s (checkAndHedge 7 (Resolved (Some [levered_future])) (Resolved ''ok'') ?s))
     = [ApiCall (PlaceFutureOrder 27 2 ''sell'')]"
    by (simp add: ex st) (simp add: default_settings_def)
  from B not_due have 2: "filter is_order_call
     (effects_since ?s
        (checkAndHedge 7 (Resolved (Some [example_future, example_call])) (Resolved ''ok'') ?s))
     = []"
    by (simp add: ex st)
  from C too_small have 3: "filter is_order_call
     (effects_since ?s (checkAndHedge 7 (Resolved (Some [dust_future])) (Resolved ''ok'') ?s))
     = []"
    by (simp add: ex st)
  from B not_due have 4: "checkAndHedge_decide 7 (Resolved ''ok'')
        \<lparr>deltaPercentage = 0.00625, totalDelta = 2.5, ethValue = 400\<rparr>
        (checkAndHedge_record 7 [example_future, example_call]
           \<lparr>deltaPercentage = 0.00625, totalDelta = 2.5, ethValue = 400\<rparr> ?s)
     = log_bot 7 INFO (DeltaWithinRange 0.625)
        (checkAndHedge_record 7 [example_future, example_call]
           \<lparr>deltaPercentage = 0.00625, totalDelta = 2.5, ethValue = 400\<rparr> ?s)"
    by (simp add: st) (simp add: default_settings_def)
  from 1 2 3 4 show ?thesis by (intro conjI)
qed

subsection \<open>A failed order\<close>

text \<open>
  Claim C5. For every hedge attempt whose order submission fails (the request is
  rejected, or the call throws), an ERROR log entry is produced, and
  \<^verbatim>\<open>totalTrades\<close>, the trade buffer and the \<^verbatim>\<open>tradeExecuted\<close> events are left
  unchanged. A trade is recorded, and counted, if and only if an order was placed and
  returned success; it is then the trade of that order, at the head of the buffer.
\<close>

theorem failed_order_records_no_trade:
  "(\<bar>- d\<bar> \<ge> minHedgeSize (settings s)
      \<and> \<not> order_succeeded (snd (placeFutureOrder (ethFutureProductId (settings s)) \<bar>- d\<bar>
              (if - d > 0 then ''buy'' else ''sell'') answer))
    \<longrightarrow> totalTrades (executeHedge now answer d s) = totalTrades s
      \<and> trades (executeHedge now answer d s) = trades s
      \<and> filter is_tradeExecuted (effects_since s (executeHedge now answer d s)) = []
      \<and> hd (logs (executeHedge now answer d s)) =
          \<lparr>level = ERROR,
           message = (case answer of Threw m \<Rightarrow> HedgeError m | _ \<Rightarrow> HedgeFailed),
           l_createdAt = now\<rparr>)
   \<and> (\<bar>- d\<bar> \<ge> minHedgeSize (settings s)
      \<and> order_succeeded (snd (placeFutureOrder (ethFutureProductId (settings s)) \<bar>- d\<bar>
              (if - d > 0 then ''buy'' else ''sell'') answer))
    \<longleftrightarrow> totalTrades (executeHedge now answer d s) = totalTrades s + 1)
   \<and> (\<bar>- d\<bar> \<ge> minHedgeSize (settings s)
      \<and> snd (placeFutureOrder (ethFutureProductId (settings s)) \<bar>- d\<bar>
              (if - d > 0 then ''buy'' else ''sell'') answer) = Inr (OrderSuccess data)
    \<longrightarrow> trades (executeHedge now answer d s) =
          trades_unshift
            \<lparr>t_side = (if - d > 0 then ''buy'' else ''sell''), hedgeSize = - d,
             t_currentDelta = d, orderResponse = OrderSuccess data, t_createdAt = now\<rparr>
            (trades s))
   \<and> (\<not> (\<bar>- d\<bar> \<ge> minHedgeSize (settings s)
      \<and> order_succeeded (snd (placeFutureOrder (ethFutureProductId (settings s)) \<bar>- d\<bar>
              (if - d > 0 then ''buy'' else ''sell'') answer)))
    \<longrightarrow> trades (executeHedge now answer d s) = trades s)"
  by (cases answer)
    (simp_all add: executeHedge_def Let_def log_bot_fields order_succeeded_def
      effects_since_def hd_logs_unshift)

theorem failed_order_records_no_trade_witness:
  "totalTrades (executeHedge 7 (Rejected ''timeout'') 2 (constructor default_settings)) = 0
   \<and> trades (executeHedge 7 (Rejected ''timeout'') 2 (constructor default_settings)) = []
   \<and> hd (logs (executeHedge 7 (Rejected ''timeout'') 2 (constructor default_settings))) =
       \<lparr>level = ERROR, message = HedgeFailed, l_createdAt = 7\<rparr>
   \<and> totalTrades (executeHedge 7 (Resolved ''ok'') 2 (constructor default_settings)) = 1
   \<and> trades (executeHedge 7 (Resolved ''ok'') 2 (constructor default_settings)) =
       [\<lparr>t_side = ''sell'', hedgeSize = - 2, t_currentDelta = 2,
         orderResponse = OrderSuccess ''ok'', t_createdAt = 7\<rparr>]"
  using
    failed_order_records_no_trade [where d = 2 and s = "constructor default_settings"
      and answer = "Rejected ''timeout''" and now = 7]
    failed_order_records_no_trade [where d = 2 and s = "constructor default_settings"
      and answer = "Resolved ''ok''" and now = 7 and data = "''ok''"]
  by (simp add: constructor_def default_settings_def order_succeeded_def
      trades_unshift_def)

subsection \<open>A failed fetch\<close>

text \<open>
  Claim C4, as the specification states it, fails: the cycle whose fetch times out
  logs the entry "No open positions", the entry of the cycle whose fetch returns the
  empty list.
\<close>

theorem fetch_failure_logs_no_positions_counterexample:
  "hd (logs (checkAndHedge 7 (Rejected ''timeout'') (Resolved ''ok'')
         (constructor default_settings))) =
     \<lparr>level = INFO, message = NoOpenPositions, l_createdAt = 7\<rparr>
   \<and> logs (checkAndHedge 7 (Rejected ''timeout'') (Resolved ''ok'')
         (constructor default_settings)) =
     logs (checkAndHedge 7 (Resolved (Some [])) (Resolved ''ok'')
         (constructor default_settings))"
  by (simp add: checkAndHedge_def checkAndHedge_resume_def checkAndHedge_begin_def Let_def
      log_bot_fields hd_logs_unshift)

text \<open>
  Claim C4, amended. For every cycle in which fetching positions fails (network,
  timeout or HTTP error), the log entries produced are those of a successful fetch
  that returns an empty position list, ending with the INFO entry "No open
  positions"; the two cycles differ only in the line the API client writes to the
  console with \<^verbatim>\<open>console.error\<close>.
\<close>

theorem fetch_failure_logged_as_no_positions:
  "logs (checkAndHedge now (Rejected m) answer s) =
     logs (checkAndHedge now (Resolved (Some [])) answer s)
   \<and> hd (logs (checkAndHedge now (Rejected m) answer s)) =
       \<lparr>level = INFO, message = NoOpenPositions, l_createdAt = now\<rparr>
   \<and> filter is_console_error (effects_since s (checkAndHedge now (Rejected m) answer s))
       = [ConsoleError ''Error fetching positions:'' m]
   \<and> filter is_console_error
         (effects_since s (checkAndHedge now (Resolved (Some [])) answer s)) = []
   \<and> filter (\<lambda>e. \<not> is_console_error e)
         (effects_since s (checkAndHedge now (Rejected m) answer s)) =
       effects_since s (checkAndHedge now (Resolved (Some [])) answer s)"
  by (simp add: checkAndHedge_def checkAndHedge_resume_def checkAndHedge_begin_def Let_def
      log_bot_fields effects_since_def hd_logs_unshift)

theorem fetch_failure_logged_as_no_positions_witness:
  "map message (logs (checkAndHedge 7 (Rejected ''timeout'') (Resolved ''ok'')
         (constructor default_settings))) = [NoOpenPositions, CheckingPositions]
   \<and> map message (logs (checkAndHedge 7 (Resolved (Some [])) (Resolved ''ok'')
         (constructor default_settings))) = [NoOpenPositions, CheckingPositions]"
  using fetch_failure_logged_as_no_positions [where now = 7 and m = "''timeout''"
      and answer = "Resolved ''ok''" and s = "constructor default_settings"]
  by (simp add: checkAndHedge_def checkAndHedge_resume_def checkAndHedge_begin_def Let_def
      log_bot_fields logs_unshift_def constructor_def)

subsection \<open>The deltaUpdate event\<close>

lemma no_deltaUpdate_without_positions:
  "filter is_deltaUpdate (effects_since s (checkAndHedge now (Resolved None) answer s)) = []"
  "filter is_deltaUpdate (effects_since s (checkAndHedge now (Resolved (Some [])) answer s)) = []"
  "filter is_deltaUpdate (effects_since s (checkAndHedge now (Rejected m) answer s)) = []"
  "filter is_deltaUpdate (effects_since s (checkAndHedge now (Threw m) answer s)) = []"
  by (simp_all add: checkAndHedge_def checkAndHedge_resume_def checkAndHedge_begin_def Let_def
      log_bot_fields effects_since_def)

lemma one_deltaUpdate_with_positions:
  assumes "ps \<noteq> []"
  shows "filter is_deltaUpdate
      (effects_since s (checkAndHedge now (Resolved (Some ps)) answer s)) =
      [Emit (DeltaUpdate (deltaPercentage (calculatePortfolioDelta ps))
         (ethValue (calculatePortfolioDelta ps)) (Some now))]"
proof -
  from checkAndHedge_positions_effects [OF assms, of now answer s]
  obtain r where
    "effects_since s (checkAndHedge now (Resolved (Some ps)) answer s) =
       [ConsoleLog INFO CheckingPositions, Emit (LogEvent INFO CheckingPositions now),
        ApiCall GetPositions, HttpGet ''/v2/positions'',
        ConsoleLog INFO (DeltaReport (deltaPercentage (calculatePortfolioDelta ps) * 100)
          (ethValue (calculatePortfolioDelta ps))),
        Emit (LogEvent INFO (DeltaReport (deltaPercentage (calculatePortfolioDelta ps) * 100)
          (ethValue (calculatePortfolioDelta ps))) now),
        Emit (DeltaUpdate (deltaPercentage (calculatePortfolioDelta ps))
          (ethValue (calculatePortfolioDelta ps)) (Some now))]
       @ effects_since r (checkAndHedge_decide now answer (calculatePortfolioDelta ps) r)"
    by blast
  then show ?thesis
    by (simp add: decide_no_deltaUpdate)
qed

lemma measured_fields:
  assumes "ps \<noteq> []"
  shows "currentDelta (checkAndHedge now (Resolved (Some ps)) answer s) =
      deltaPercentage (calculatePortfolioDelta ps)"
    and "bot_ethValue (checkAndHedge now (Resolved (Some ps)) answer s) =
      ethValue (calculatePortfolioDelta ps)"
    and "lastCheck (checkAndHedge now (Resolved (Some ps)) answer s) = Some now"
  unfolding checkAndHedge_positions [OF assms]
  by (simp_all add: decide_fields record_fields)

text \<open>
  Claim C7, as the specification states it, fails: the cycle whose fetch times out
  emits no \<^verbatim>\<open>deltaUpdate\<close> event, and neither does the cycle whose fetch returns no
  position.
\<close>

theorem deltaUpdate_not_emitted_counterexample:
  "length (filter is_deltaUpdate
     (effects_since (constructor default_settings)
        (checkAndHedge 7 (Rejected ''timeout'') (Resolved ''ok'')
           (constructor default_settings)))) \<noteq> 1
   \<and> length (filter is_deltaUpdate
     (effects_since (constructor default_settings)
        (checkAndHedge 7 (Resolved (Some [])) (Resolved ''ok'')
           (constructor default_settings)))) \<noteq> 1"
  by (simp add: no_deltaUpdate_without_positions)

text \<open>
  Claim C7, amended. Every cycle whose fetch returns at least one position emits
  exactly one \<^verbatim>\<open>deltaUpdate\<close> event, carrying that cycle's delta, notional and
  lastCheck timestamp (the values the cycle leaves in the state), whether or not a hedge
  is triggered and whatever becomes of the order; a cycle whose fetch fails, throws or
  returns no position emits none.
\<close>

theorem deltaUpdate_once_per_measured_cycle:
  "filter is_deltaUpdate (effects_since s (checkAndHedge now fetched answer s)) =
     (case fetched of
        Resolved (Some ps) \<Rightarrow>
          if ps = [] then []
          else [Emit (DeltaUpdate (deltaPercentage (calculatePortfolioDelta ps))
                  (ethValue (calculatePortfolioDelta ps)) (Some now))]
      | _ \<Rightarrow> [])
   \<and> (ps \<noteq> [] \<longrightarrow>
        filter is_deltaUpdate
          (effects_since s (checkAndHedge now (Resolved (Some ps)) answer s)) =
        [Emit (DeltaUpdate (currentDelta (checkAndHedge now (Resolved (Some ps)) answer s))
           (bot_ethValue (checkAndHedge now (Resolved (Some ps)) answer s))
           (lastCheck (checkAndHedge now (Resolved (Some ps)) answer s)))])"
proof (intro conjI impI)
  show "filter is_deltaUpdate (effects_since s (checkAndHedge now fetched answer s)) =
     (case fetched of
        Resolved (Some ps) \<Rightarrow>
          if ps = [] then []
          else [Emit (DeltaUpdate (deltaPercentage (calculatePortfolioDelta ps))
                  (ethValue (calculatePortfolioDelta ps)) (Some now))]
      | _ \<Rightarrow> [])"
  proof (cases fetched)
    case (Resolved r)
    then show ?thesis
      by (cases r)
        (simp_all add: no_deltaUpdate_without_positions one_deltaUpdate_with_positions)
  next
    case (Rejected m)
    then show ?thesis by (simp add: no_deltaUpdate_without_positions)
  next
    case (Threw m)
    then show ?thesis by (simp add: no_deltaUpdate_without_positions)
  qed
next
  assume "ps \<noteq> []"
  then show "filter is_deltaUpdate
          (effects_since s (checkAndHedge now (Resolved (Some ps)) answer s)) =
        [Emit (DeltaUpdate (currentDelta (checkAndHedge now (Resolved (Some ps)) answer s))
           (bot_ethValue (checkAndHedge now (Resolved (Some ps)) answer s))
           (lastCheck (checkAndHedge now (Resolved (Some ps)) answer s)))]"
    by (simp add: one_deltaUpdate_with_positions measured_fields)
qed

theorem deltaUpdate_once_per_measured_cycle_witness:
  "filter is_deltaUpdate
     (effects_since (constructor default_settings)
        (checkAndHedge 7 (Resolved (Some [levered_future])) (Rejected ''timeout'')
           (constructor default_settings)))
     = [Emit (DeltaUpdate 1 2 (Some 7))]
   \<and> currentDelta (checkAndHedge 7 (Resolved (Some [levered_future])) (Rejected ''timeout'')
        (constructor default_settings)) = 1
   \<and> filter is_deltaUpdate
     (effects_since (constructor default_settings)
        (checkAndHedge 7 (Resolved (Some [example_future, example_call]))
           (Rejected ''timeout'') (constructor default_settings)))
     = [Emit (DeltaUpdate 0.00625 400 (Some 7))]
   \<and> filter is_deltaUpdate
     (effects_since (constructor default_settings)
        (checkAndHedge 7 (Threw ''key'') (Rejected ''timeout'')
           (constructor default_settings)))
     = []"
proof -
  let ?s = "constructor default_settings"
  note ex = calculatePortfolioDelta_example calculatePortfolioDelta_levered
  note A = deltaUpdate_once_per_measured_cycle [where s = ?s and now = 7
      and fetched = "Resolved (Some [levered_future])" and answer = "Rejected ''timeout''"
      and ps = "[levered_future]"]
  note B = deltaUpdate_once_per_measured_cycle [where s = ?s and now = 7
      and fetched = "Resolved (Some [example_future, example_call])"
      and answer = "Rejected ''timeout''" and ps = "[levered_future]"]
  note C = deltaUpdate_once_per_measured_cycle [where s = ?s and now = 7
      and fetched = "Threw ''key''" and answer = "Rejected ''timeout''"
      and ps = "[levered_future]"]
  from A have 1: "filter is_deltaUpdate
     (effects_since ?s
        (checkAndHedge 7 (Resolved (Some [levered_future])) (Rejected ''timeout'') ?s))
     = [Emit (DeltaUpdate 1 2 (Some 7))]"
    by (simp add: ex)
  from A 1 have 2: "currentDelta
      (checkAndHedge 7 (Resolved (Some [levered_future])) (Rejected ''timeout'') ?s) = 1"
    by simp
  from B have 3: "filter is_deltaUpdate
     (effects_since ?s
        (checkAndHedge 7 (Resolved (Some [example_future, example_call]))
           (Rejected ''timeout'') ?s))
     = [Emit (DeltaUpdate 0.00625 400 (Some 7))]"
    by (simp add: ex)
  from C have 4: "filter is_deltaUpdate
     (effects_since ?s (checkAndHedge 7 (Threw ''key'') (Rejected ''timeout'') ?s)) = []"
    by simp
  from 1 2 3 4 show ?thesis by (intro conjI)
qed

subsection \<open>Settings updated with zero\<close>

text \<open>
  Claim C10. For every \<^verbatim>\<open>updateSettings\<close> call in which a provided field
  (\<^verbatim>\<open>deltaThreshold\<close>, \<^verbatim>\<open>checkInterval\<close> or \<^verbatim>\<open>minHedgeSize\<close>) has the value 0, that field
  of the settings is left unchanged, and for \<^verbatim>\<open>checkInterval\<close> no timer is cleared or
  armed and the status stays as it is. The zero is ignored silently: the call ends with
  the log entry "Settings updated", and when all three fields are 0 that entry is all
  the call does.
\<close>

theorem updateSettings_ignores_zero:
  "(n_deltaThreshold n = Some 0 \<longrightarrow>
      deltaThreshold (settings (updateSettings now n s)) = deltaThreshold (settings s))
   \<and> (n_checkInterval n = Some 0 \<longrightarrow>
      checkInterval (settings (updateSettings now n s)) = checkInterval (settings s)
      \<and> status (updateSettings now n s) = status s
      \<and> interval (updateSettings now n s) = interval s
      \<and> filter is_timer (effects_since s (updateSettings now n s)) = [])
   \<and> (n_minHedgeSize n = Some 0 \<longrightarrow>
      minHedgeSize (settings (updateSettings now n s)) = minHedgeSize (settings s))
   \<and> (n_deltaThreshold n = Some 0 \<and> n_checkInterval n = Some 0 \<and> n_minHedgeSize n = Some 0
      \<longrightarrow> updateSettings now n s = log_bot now INFO SettingsUpdated s)
   \<and> hd (logs (updateSettings now n s)) =
       \<lparr>level = INFO, message = SettingsUpdated, l_createdAt = now\<rparr>"
proof (intro conjI impI)
  assume "n_deltaThreshold n = Some 0"
  then show "deltaThreshold (settings (updateSettings now n s)) = deltaThreshold (settings s)"
    by (simp add: updateSettings_def Let_def log_bot_fields start_fields stop_fields
        split: option.splits)
next
  assume z: "n_checkInterval n = Some 0"
  then show "checkInterval (settings (updateSettings now n s)) = checkInterval (settings s)"
    by (simp add: updateSettings_def Let_def log_bot_fields split: option.splits)
  from z show "status (updateSettings now n s) = status s"
    by (simp add: updateSettings_def Let_def log_bot_fields split: option.splits)
  from z show "interval (updateSettings now n s) = interval s"
    by (simp add: updateSettings_def Let_def log_bot_fields split: option.splits)
  from z show "filter is_timer (effects_since s (updateSettings now n s)) = []"
    by (simp add: updateSettings_def Let_def log_bot_fields effects_since_def
        split: option.splits)
next
  assume "n_minHedgeSize n = Some 0"
  then show "minHedgeSize (settings (updateSettings now n s)) = minHedgeSize (settings s)"
    by (simp add: updateSettings_def Let_def log_bot_fields start_fields stop_fields
        split: option.splits)
next
  assume "n_deltaThreshold n = Some 0 \<and> n_checkInterval n = Some 0
    \<and> n_minHedgeSize n = Some 0"
  then show "updateSettings now n s = log_bot now INFO SettingsUpdated s"
    by (simp add: updateSettings_def)
next
  show "hd (logs (updateSettings now n s)) =
       \<lparr>level = INFO, message = SettingsUpdated, l_createdAt = now\<rparr>"
    by (simp add: updateSettings_def Let_def log_bot_fields hd_logs_unshift)
qed

theorem updateSettings_ignores_zero_witness:
  "settings (updateSettings 9 zero_settings (start 7 (constructor default_settings))) =
     default_settings
   \<and> status (updateSettings 9 zero_settings (start 7 (constructor default_settings))) =
     Running
   \<and> interval (updateSettings 9 zero_settings (start 7 (constructor default_settings))) =
     Some 60000
   \<and> effects_since (start 7 (constructor default_settings))
       (updateSettings 9 zero_settings (start 7 (constructor default_settings))) =
     [ConsoleLog INFO SettingsUpdated, Emit (LogEvent INFO SettingsUpdated 9)]"
proof -
  let ?s = "start 7 (constructor default_settings)"
  have z: "n_deltaThreshold zero_settings = Some 0 \<and> n_checkInterval zero_settings = Some 0
      \<and> n_minHedgeSize zero_settings = Some 0"
    by (simp add: zero_settings_def)
  note T = updateSettings_ignores_zero [where n = zero_settings and now = 9 and s = ?s]
  from T z have eq: "updateSettings 9 zero_settings ?s = log_bot 9 INFO SettingsUpdated ?s"
    by blast
  have st: "settings ?s = default_settings" "status ?s = Running" "interval ?s = Some 60000"
    by (simp_all add: start_def constructor_def Let_def begin_fields log_bot_fields
        default_settings_def)
  show ?thesis
    unfolding eq by (simp add: log_bot_fields st effects_since_def)
qed

subsection \<open>The buffers, over whole cycles\<close>

text \<open>The delta history changes only in a cycle that fetched at least one position,
  by one append; so its bound holds along every run of the bot.\<close>

lemma deltaHistory_checkAndHedge:
  "deltaHistory (checkAndHedge now fetched answer s) =
     (case fetched of
        Resolved (Some ps) \<Rightarrow>
          if ps = [] then deltaHistory s
          else deltaHistory_push
                 \<lparr>h_deltaPercentage = deltaPercentage (calculatePortfolioDelta ps),
                  h_totalDelta = totalDelta (calculatePortfolioDelta ps),
                  h_ethValue = ethValue (calculatePortfolioDelta ps),
                  positionsCount = length ps,
                  h_createdAt = now\<rparr> (deltaHistory s)
      | _ \<Rightarrow> deltaHistory s)"
proof (cases fetched)
  case (Resolved r)
  show ?thesis
  proof (cases r)
    case None
    with Resolved show ?thesis
      by (simp add: checkAndHedge_def checkAndHedge_resume_def Let_def log_bot_fields
          begin_fields)
  next
    case (Some ps)
    show ?thesis
    proof (cases "ps = []")
      case True
      with Some Resolved show ?thesis
        by (simp add: checkAndHedge_def checkAndHedge_resume_def Let_def log_bot_fields
            begin_fields)
    next
      case False
      with Some Resolved show ?thesis
        by (simp add: checkAndHedge_positions decide_fields)
          (simp add: checkAndHedge_record_def Let_def log_bot_fields begin_fields)
    qed
  qed
next
  case (Rejected m)
  then show ?thesis
    by (simp add: checkAndHedge_def checkAndHedge_resume_def Let_def log_bot_fields
        begin_fields)
next
  case (Threw m)
  then show ?thesis
    by (simp add: checkAndHedge_def checkAndHedge_resume_def Let_def log_bot_fields
        begin_fields)
qed

lemma length_deltaHistory_checkAndHedge:
  "length (deltaHistory s) \<le> 100 \<Longrightarrow>
   length (deltaHistory (checkAndHedge now fetched answer s)) \<le> 100"
  by (simp add: deltaHistory_checkAndHedge length_deltaHistory_push
      split: outcome.splits option.splits)

lemma length_trades_executeHedge:
  "length (trades s) \<le> 50 \<Longrightarrow> length (trades (executeHedge now answer d s)) \<le> 50"
  by (cases answer)
    (simp_all add: executeHedge_def Let_def log_bot_fields length_trades_unshift)

lemma length_trades_checkAndHedge:
  assumes "length (trades s) \<le> 50"
  shows "length (trades (checkAndHedge now fetched answer s)) \<le> 50"
proof (cases "\<exists>ps. fetched = Resolved (Some ps) \<and> ps \<noteq> []")
  case True
  then obtain ps where f: "fetched = Resolved (Some ps)" and ne: "ps \<noteq> []"
    by blast
  from assms show ?thesis
    unfolding f checkAndHedge_positions [OF ne]
    by (simp add: checkAndHedge_decide_def length_trades_executeHedge record_fields
        begin_fields log_bot_fields)
next
  case False
  with assms show ?thesis
    by (cases fetched)
      (auto simp add: checkAndHedge_def checkAndHedge_resume_def Let_def log_bot_fields
        begin_fields split: option.splits)
qed

lemma buffers_untouched_by_control:
  "deltaHistory (start now s) = deltaHistory s \<and> trades (start now s) = trades s"
  "deltaHistory (stop now s) = deltaHistory s \<and> trades (stop now s) = trades s"
  "deltaHistory (updateSettings now n s) = deltaHistory s
   \<and> trades (updateSettings now n s) = trades s
   \<and> totalTrades (updateSettings now n s) = totalTrades s"
  by (simp_all add: start_fields stop_fields updateSettings_def Let_def log_bot_fields
      split: option.splits)

end
